theory Spec2Isabelle
  imports Complex_Main
begin

section \<open>Video detector and repair tool: a shallow embedding\<close>

text \<open>
  The development follows \<^verbatim>\<open>video_detector.py\<close> (classes \<^verbatim>\<open>VideoInfo\<close> and
  \<^verbatim>\<open>VideoDetector\<close>) and the two analysis routines of \<^verbatim>\<open>video_conversion.py\<close>
  (\<^verbatim>\<open>VideoConverter.identify_problematic_streams\<close> and the duration derivation of
  \<^verbatim>\<open>VideoConverter.create_preview\<close>).

  External tools are not executed: every call of \<^verbatim>\<open>ffprobe\<close> or \<^verbatim>\<open>ffmpeg\<close>, and every
  file-system call that may fail, takes its outcome from an explicit argument, so that each
  function below is a function of the outcomes its source reads. Log output (the
  \<^verbatim>\<open>callback\<close>/\<^verbatim>\<open>print\<close> lines) is not part of the model. The user-visible texts of the
  source are Chinese; they are represented by constructors whose comments give the text's
  place in the source.
\<close>

subsection \<open>Strings\<close>

text \<open>
  Strings are ASCII. \<^verbatim>\<open>str.lower\<close> and \<^verbatim>\<open>str.upper\<close> change the 26 letters only.
\<close>

type_synonym path = string

definition lower_char :: "char \<Rightarrow> char" where
  "lower_char c =
     (case map_of (zip ''ABCDEFGHIJKLMNOPQRSTUVWXYZ'' ''abcdefghijklmnopqrstuvwxyz'') c of
        None \<Rightarrow> c
      | Some l \<Rightarrow> l)"

definition upper_char :: "char \<Rightarrow> char" where
  "upper_char c =
     (case map_of (zip ''abcdefghijklmnopqrstuvwxyz'' ''ABCDEFGHIJKLMNOPQRSTUVWXYZ'') c of
        None \<Rightarrow> c
      | Some u \<Rightarrow> u)"

definition lower :: "string \<Rightarrow> string" where
  "lower s = map lower_char s"

definition upper :: "string \<Rightarrow> string" where
  "upper s = map upper_char s"

text \<open>\<^verbatim>\<open>s.split(sep)\<close> for a one-character separator: the pieces between separators.\<close>

fun split_on :: "char \<Rightarrow> string \<Rightarrow> string list" where
  "split_on sep [] = [[]]"
| "split_on sep (c # cs) =
     (if c = sep then [] # split_on sep cs
      else case split_on sep cs of
             [] \<Rightarrow> [[c]]
           | p # ps \<Rightarrow> (c # p) # ps)"

text \<open>
  \<^verbatim>\<open>int(s)\<close> on a string: surrounding white space is dropped, one sign is allowed, then
  decimal digits follow, with single underscores allowed between digits. \<open>None\<close> stands
  for \<^verbatim>\<open>ValueError\<close>. (The interpreter's configurable limit on the number of digits is
  not modelled.)
\<close>

definition is_space :: "char \<Rightarrow> bool" where
  "is_space c \<longleftrightarrow>
     c \<in> set [CHR 0x09, CHR 0x0A, CHR 0x0B, CHR 0x0C, CHR 0x0D,
              CHR 0x1C, CHR 0x1D, CHR 0x1E, CHR 0x1F, CHR '' '']"

definition strip :: "string \<Rightarrow> string" where
  "strip s = rev (dropWhile is_space (rev (dropWhile is_space s)))"

definition digit_val :: "char \<Rightarrow> nat option" where
  "digit_val c = map_of (zip ''0123456789'' [0, 1, 2, 3, 4, 5, 6, 7, 8, 9]) c"

fun py_digits :: "nat \<Rightarrow> bool \<Rightarrow> string \<Rightarrow> nat option" where
  "py_digits acc prev_digit [] = (if prev_digit then Some acc else None)"
| "py_digits acc prev_digit (c # cs) =
     (if c = CHR ''_'' then (if prev_digit then py_digits acc False cs else None)
      else case digit_val c of
             None \<Rightarrow> None
           | Some v \<Rightarrow> py_digits (acc * 10 + v) True cs)"

definition py_int :: "string \<Rightarrow> int option" where
  "py_int s =
     (case strip s of
        [] \<Rightarrow> None
      | c # cs \<Rightarrow>
          if c = CHR ''-'' then map_option (\<lambda>n. - int n) (py_digits 0 False cs)
          else if c = CHR ''+'' then map_option int (py_digits 0 False cs)
          else map_option int (py_digits 0 False (c # cs)))"

text \<open>Decimal output of a natural number, as \<^verbatim>\<open>str\<close> and the format specs print it.\<close>

definition digit_char :: "nat \<Rightarrow> char" where
  "digit_char n = ''0123456789'' ! n"

fun show_nat :: "nat \<Rightarrow> string" where
  "show_nat n =
     (if n < 10 then [digit_char n] else show_nat (n div 10) @ [digit_char (n mod 10)])"

declare show_nat.simps [simp del]

subsection \<open>Numbers\<close>

text \<open>
  Python's \<^verbatim>\<open>round\<close> and the \<^verbatim>\<open>.0f\<close> format round to the nearest value, ties to the even
  neighbour. \<open>round_half_even n d\<close> is the integer nearest to \<open>n / d\<close> (for \<open>d \<noteq> 0\<close>).
  The source computes in binary floating point; the model computes the same quotients
  exactly, as rationals, without the range limit of floating point. The two agree wherever
  the numbers are in that range and the exact quotient is not a tie that binary floating
  point cannot represent; the frame rates named in the properties below are far from ties.
\<close>

definition round_half_even :: "int \<Rightarrow> int \<Rightarrow> int" where
  "round_half_even n d =
     (let n' = (if d < 0 then - n else n);
          d' = \<bar>d\<bar>;
          q = n' div d';
          r = n' mod d'
      in if 2 * r < d' then q
         else if d' < 2 * r then q + 1
         else if even q then q else q + 1)"

definition py_round2 :: "int \<Rightarrow> int \<Rightarrow> rat" where
  "py_round2 num denom = of_int (round_half_even (100 * num) denom) / 100"

text \<open>\<^verbatim>\<open>f"{n / 1000:.0f} kbps"\<close> for an integer \<open>n\<close>.\<close>

definition format_kbps :: "int \<Rightarrow> string" where
  "format_kbps n =
     (if n < 0 then ''-'' else '''') @ show_nat (nat (round_half_even \<bar>n\<bar> 1000)) @ '' kbps''"

subsection \<open>The output of the media inspector\<close>

text \<open>
  \<^verbatim>\<open>ffprobe -print_format json -show_format -show_streams\<close> prints an object with the keys
  \<^verbatim>\<open>streams\<close> and \<^verbatim>\<open>format\<close>. The records below hold the keys the source reads, each
  with the JSON type ffprobe gives it; \<open>None\<close> is an absent key. A \<^verbatim>\<open>duration\<close> entry is
  a string that the source passes to \<^verbatim>\<open>float\<close>; it is represented by what \<^verbatim>\<open>float\<close>
  makes of it: a (finite) number or a \<^verbatim>\<open>ValueError\<close>.
\<close>

datatype dur_text = Numeric rat | NonNumeric

record side_data =
  side_data_type :: "string option"

record stream =
  s_codec_type :: "string option"
  s_codec_name :: "string option"
  s_pix_fmt :: "string option"
  s_color_space :: "string option"
  s_side_data_list :: "side_data list option"
  s_width :: "int option"
  s_height :: "int option"
  s_r_frame_rate :: "string option"
  s_bit_rate :: "string option"
  s_duration :: "dur_text option"

record format_info =
  f_duration :: "dur_text option"

record probe_data =
  p_streams :: "stream list option"
  p_format :: "format_info option"

text \<open>
  One run of the inspector (\<^verbatim>\<open>subprocess.run\<close>): the call itself raises, or the process
  exits with a return code, its standard error text, and a standard output that
  \<^verbatim>\<open>json.loads\<close> either parses (\<open>Some\<close>) or rejects (\<open>None\<close>).
\<close>

datatype ffprobe_run = SpawnError | Exited int string "probe_data option"

definition streams_of :: "probe_data \<Rightarrow> stream list" where
  "streams_of data = (case p_streams data of None \<Rightarrow> [] | Some ss \<Rightarrow> ss)"

definition str_or_empty :: "string option \<Rightarrow> string" where
  "str_or_empty v = (case v of None \<Rightarrow> [] | Some s \<Rightarrow> s)"

subsection \<open>Exceptions and messages\<close>

datatype cause =
    FFprobeExit string
  | SubprocessError
  | ValueError

datatype exn =
    ProbeUnparsable
  | ProbeError cause
  | OSError

datatype detect_message =
    CompatibilityIssuesDetected
  | CannotGetVideoInfo
  | DetectionFailed exn
  | FFprobeUnavailable

datatype issue =
    VideoCodecIssue string
  | PixelFormatIssue string
  | ColorSpaceIssue string
  | AmbientViewingIssue
  | AudioCodecIssue string

subsection \<open>VideoInfo\<close>

datatype status = STATUS_UNKNOWN | STATUS_OK | STATUS_ERROR | STATUS_FIXED | STATUS_PROCESSING

record conversion =
  cp_quality :: string
  cp_preset :: string
  cp_crf :: string

record VideoInfo =
  filepath :: path
  filename :: string
  filesize :: nat
  status :: status
  width :: "int option"
  height :: "int option"
  duration :: "rat option"
  fps :: "rat option"
  codec :: "string option"
  video_bitrate :: "string option"
  audio_codec :: "string option"
  audio_bitrate :: "string option"
  error_message :: "detect_message option"
  fixed_path :: "path option"
  fixed_time :: "string option"
  conversion_params :: "conversion option"
  pixel_format :: "string option"
  color_space :: "string option"
  issues :: "issue list"

text \<open>\<^verbatim>\<open>os.path.basename\<close> (POSIX): what follows the last slash.\<close>

definition basename :: "path \<Rightarrow> string" where
  "basename p = rev (takeWhile (\<lambda>c. c \<noteq> CHR ''/'') (rev p))"

text \<open>\<^verbatim>\<open>VideoInfo.__init__\<close>; the file's size is what \<^verbatim>\<open>os.path.getsize\<close> returned.\<close>

definition new_VideoInfo :: "path \<Rightarrow> nat \<Rightarrow> VideoInfo" where
  "new_VideoInfo p nbytes =
     \<lparr> filepath = p, filename = basename p, filesize = nbytes, status = STATUS_UNKNOWN,
       width = None, height = None, duration = None, fps = None, codec = None,
       video_bitrate = None, audio_codec = None, audio_bitrate = None,
       error_message = None, fixed_path = None, fixed_time = None,
       conversion_params = None, pixel_format = None, color_space = None, issues = [] \<rparr>"

subsection \<open>VideoDetector: the prober\<close>

record detector =
  ffmpeg_path :: "path option"
  ffprobe_path :: "path option"

definition has_ffmpeg :: "detector \<Rightarrow> bool" where
  "has_ffmpeg d \<longleftrightarrow> ffmpeg_path d \<noteq> None"

definition has_ffprobe :: "detector \<Rightarrow> bool" where
  "has_ffprobe d \<longleftrightarrow> ffprobe_path d \<noteq> None"

text \<open>
  The dictionary \<^verbatim>\<open>info\<close> that \<^verbatim>\<open>_get_video_info\<close> builds. A field is \<open>None\<close> when the
  key is not in the dictionary; the keys filled by \<^verbatim>\<open>dict.get\<close> without a default hold
  an optional string, whose \<open>None\<close> is Python's \<^verbatim>\<open>None\<close>.
\<close>

record info =
  i_width :: "int option"
  i_height :: "int option"
  i_codec :: "string option option"
  i_pixel_format :: "string option option"
  i_color_space :: "string option option"
  i_fps :: "rat option"
  i_video_bitrate :: "string option"
  i_audio_codec :: "string option option"
  i_audio_bitrate :: "string option"
  i_duration :: "rat option"

definition empty_info :: info where
  "empty_info =
     \<lparr> i_width = None, i_height = None, i_codec = None, i_pixel_format = None,
       i_color_space = None, i_fps = None, i_video_bitrate = None, i_audio_codec = None,
       i_audio_bitrate = None, i_duration = None \<rparr>"

text \<open>
  Lines 354-359: the frame rate. \<open>Inl ValueError\<close> is the exception that \<^verbatim>\<open>int\<close> or the
  unpacking into \<^verbatim>\<open>num, denom\<close> raises; \<open>Inr None\<close> leaves the key \<^verbatim>\<open>fps\<close> out.
\<close>

definition frame_rate :: "string option \<Rightarrow> cause + rat option" where
  "frame_rate field =
     (let fps_str = str_or_empty field
      in if fps_str \<noteq> [] \<and> CHR ''/'' \<in> set fps_str then
           (case map py_int (split_on CHR ''/'' fps_str) of
              [Some num, Some denom] \<Rightarrow>
                Inr (if denom \<noteq> 0 then Some (py_round2 num denom) else None)
            | _ \<Rightarrow> Inl ValueError)
         else Inr None)"

text \<open>Lines 361-367 and 373-378: a bit rate that \<^verbatim>\<open>int\<close> rejects is passed over.\<close>

definition bitrate_text :: "string option \<Rightarrow> string option" where
  "bitrate_text field =
     (case field of
        None \<Rightarrow> None
      | Some s \<Rightarrow> map_option format_kbps (py_int s))"

text \<open>Lines 380-386: the duration, from the \<^verbatim>\<open>format\<close> object.\<close>

definition format_duration_of :: "probe_data \<Rightarrow> rat option" where
  "format_duration_of data =
     (case p_format data of
        None \<Rightarrow> None
      | Some format_info \<Rightarrow>
          (case f_duration format_info of
             None \<Rightarrow> None
           | Some NonNumeric \<Rightarrow> None
           | Some (Numeric x) \<Rightarrow> Some x))"

definition int_or_zero :: "int option \<Rightarrow> int" where
  "int_or_zero v = (case v of None \<Rightarrow> 0 | Some n \<Rightarrow> n)"

text \<open>Lines 333-388: from the parsed output to the dictionary.\<close>

definition extract_info :: "probe_data \<Rightarrow> cause + info" where
  "extract_info data =
     (let video_stream = find (\<lambda>s. s_codec_type s = Some ''video'') (streams_of data);
          audio_stream = find (\<lambda>s. s_codec_type s = Some ''audio'') (streams_of data);
          with_video =
            (case video_stream of
               None \<Rightarrow> Inr empty_info
             | Some v \<Rightarrow>
                 (case frame_rate (s_r_frame_rate v) of
                    Inl e \<Rightarrow> Inl e
                  | Inr rate \<Rightarrow>
                      Inr (empty_info
                        \<lparr> i_width := Some (int_or_zero (s_width v)),
                          i_height := Some (int_or_zero (s_height v)),
                          i_codec := Some (s_codec_name v),
                          i_pixel_format := Some (s_pix_fmt v),
                          i_color_space := Some (s_color_space v),
                          i_fps := rate,
                          i_video_bitrate := bitrate_text (s_bit_rate v) \<rparr>)))
      in case with_video of
           Inl e \<Rightarrow> Inl e
         | Inr i \<Rightarrow>
             Inr ((case audio_stream of
                     None \<Rightarrow> i
                   | Some a \<Rightarrow>
                       i \<lparr> i_audio_codec := Some (s_codec_name a),
                           i_audio_bitrate := bitrate_text (s_bit_rate a) \<rparr>)
                  \<lparr> i_duration := format_duration_of data \<rparr>))"

text \<open>
  \<^verbatim>\<open>_get_video_info\<close>: \<open>Inr None\<close> is the return value \<^verbatim>\<open>None\<close>, \<open>Inl\<close> the exception
  that the two handlers at the end of the function raise again.
\<close>

definition get_video_info :: "detector \<Rightarrow> ffprobe_run \<Rightarrow> exn + info option" where
  "get_video_info d run =
     (if \<not> has_ffprobe d then Inr None
      else case run of
             SpawnError \<Rightarrow> Inl (ProbeError SubprocessError)
           | Exited returncode stderr out \<Rightarrow>
               (if returncode \<noteq> 0 then Inl (ProbeError (FFprobeExit stderr))
                else (case out of
                        None \<Rightarrow> Inl ProbeUnparsable
                      | Some data \<Rightarrow>
                          (case extract_info data of
                             Inl e \<Rightarrow> Inl (ProbeError e)
                           | Inr i \<Rightarrow> Inr (Some i)))))"

subsection \<open>VideoDetector: the analyzer\<close>

definition problem_video_codecs :: "string list" where
  "problem_video_codecs = [''hevc'', ''h265'', ''av1'', ''vp9'']"

definition accepted_pixel_formats :: "string list" where
  "accepted_pixel_formats = [''yuv420p'', ''yuvj420p'', ''rgb24'', ''bgr24'']"

definition accepted_color_spaces :: "string list" where
  "accepted_color_spaces = [''bt709'', ''bt601'', ''bt470bg'', ''smpte170m'']"

definition accepted_audio_codecs :: "string list" where
  "accepted_audio_codecs = [''aac'', ''mp3'', ''pcm_s16le'']"

text \<open>Lines 435-455 (and 181-201 of the converter): the three checks on named fields.\<close>

definition field_issues :: "stream \<Rightarrow> issue list" where
  "field_issues s =
     (let codec_name = lower (str_or_empty (s_codec_name s));
          pix_fmt = lower (str_or_empty (s_pix_fmt s));
          color_space = lower (str_or_empty (s_color_space s))
      in (if codec_name \<in> set problem_video_codecs
          then [VideoCodecIssue (upper codec_name)] else [])
       @ (if pix_fmt \<noteq> [] \<and> pix_fmt \<notin> set accepted_pixel_formats
          then [PixelFormatIssue pix_fmt] else [])
       @ (if color_space \<noteq> [] \<and> color_space \<notin> set accepted_color_spaces
          then [ColorSpaceIssue color_space] else []))"

text \<open>Lines 457-463: one issue for every ambient-viewing-environment entry.\<close>

definition side_data_issues :: "stream \<Rightarrow> issue list" where
  "side_data_issues s =
     concat (map (\<lambda>data_item.
                    if side_data_type data_item = Some ''Ambient viewing environment''
                    then [AmbientViewingIssue] else [])
                 (case s_side_data_list s of None \<Rightarrow> [] | Some items \<Rightarrow> items))"

definition video_stream_issues :: "stream \<Rightarrow> issue list" where
  "video_stream_issues s = field_issues s @ side_data_issues s"

text \<open>Lines 465-472 (and 203-210 of the converter).\<close>

definition audio_stream_issues :: "stream \<Rightarrow> issue list" where
  "audio_stream_issues s =
     (let codec_name = lower (str_or_empty (s_codec_name s))
      in if codec_name \<notin> set accepted_audio_codecs then [AudioCodecIssue codec_name] else [])"

text \<open>
  The loop over the streams. The result dictionary is the pair of its two lists,
  \<^verbatim>\<open>video_issues\<close> first; the first argument is the check applied to a video stream.
\<close>

fun scan_streams ::
  "(stream \<Rightarrow> issue list) \<Rightarrow> stream list \<Rightarrow> issue list \<times> issue list \<Rightarrow> issue list \<times> issue list"
where
  "scan_streams video_check [] result = result"
| "scan_streams video_check (s # ss) result =
     (if s_codec_type s = Some ''video''
      then scan_streams video_check ss (fst result @ video_check s, snd result)
      else if s_codec_type s = Some ''audio''
      then scan_streams video_check ss (fst result, snd result @ audio_stream_issues s)
      else scan_streams video_check ss result)"

text \<open>
  \<^verbatim>\<open>_identify_problematic_streams\<close>, with the outcomes of its two inspector runs: the one
  inside \<^verbatim>\<open>_get_video_info\<close> and the one with \<^verbatim>\<open>-show_data\<close>. Every exception inside
  the \<^verbatim>\<open>try\<close> ends in the handler of lines 476-479, which returns \<^verbatim>\<open>result\<close>.
\<close>

definition identify_problematic_streams ::
  "detector \<Rightarrow> ffprobe_run \<Rightarrow> ffprobe_run \<Rightarrow> issue list \<times> issue list"
where
  "identify_problematic_streams d info_run data_run =
     (let result = ([], [])
      in if \<not> has_ffprobe d then result
         else case get_video_info d info_run of
                Inl e \<Rightarrow> result
              | Inr None \<Rightarrow> result
              | Inr (Some video_info) \<Rightarrow>
                  (if video_info = empty_info then result
                   else (case data_run of
                           SpawnError \<Rightarrow> result
                         | Exited returncode stderr out \<Rightarrow>
                             (if returncode \<noteq> 0 then result
                              else (case out of
                                      None \<Rightarrow> result
                                    | Some data \<Rightarrow>
                                        scan_streams video_stream_issues (streams_of data)
                                          result)))))"

subsection \<open>VideoDetector: detection\<close>

text \<open>
  Lines 275-278: every key of the dictionary names an attribute of \<^verbatim>\<open>VideoInfo\<close>, so
  every key present is copied.
\<close>

definition update_from :: "info \<Rightarrow> VideoInfo \<Rightarrow> VideoInfo" where
  "update_from i v =
     v \<lparr> width := (case i_width i of None \<Rightarrow> width v | Some x \<Rightarrow> Some x),
         height := (case i_height i of None \<Rightarrow> height v | Some x \<Rightarrow> Some x),
         codec := (case i_codec i of None \<Rightarrow> codec v | Some x \<Rightarrow> x),
         pixel_format := (case i_pixel_format i of None \<Rightarrow> pixel_format v | Some x \<Rightarrow> x),
         color_space := (case i_color_space i of None \<Rightarrow> color_space v | Some x \<Rightarrow> x),
         fps := (case i_fps i of None \<Rightarrow> fps v | Some x \<Rightarrow> Some x),
         video_bitrate := (case i_video_bitrate i of None \<Rightarrow> video_bitrate v | Some x \<Rightarrow> Some x),
         audio_codec := (case i_audio_codec i of None \<Rightarrow> audio_codec v | Some x \<Rightarrow> x),
         audio_bitrate := (case i_audio_bitrate i of None \<Rightarrow> audio_bitrate v | Some x \<Rightarrow> Some x),
         duration := (case i_duration i of None \<Rightarrow> duration v | Some x \<Rightarrow> Some x) \<rparr>"

text \<open>
  \<^verbatim>\<open>detect_video\<close>. \<open>on_disk\<close> is the size of the file, or \<open>None\<close> when the path does not
  exist; \<open>run\<close> is the inspector run of line 273, \<open>info_run\<close> and \<open>data_run\<close> are the two
  runs of the analyzer called at line 281. The result \<open>None\<close> is the return value
  \<^verbatim>\<open>None\<close> of line 265. The dictionary returned by the analyzer is never empty, so the
  test of line 282 succeeds.
\<close>

definition detect_video ::
  "detector \<Rightarrow> path \<Rightarrow> nat option \<Rightarrow> ffprobe_run \<Rightarrow> ffprobe_run \<Rightarrow> ffprobe_run \<Rightarrow> VideoInfo option"
where
  "detect_video d video_path on_disk run info_run data_run =
     (case on_disk of
        None \<Rightarrow> None
      | Some nbytes \<Rightarrow>
          (let info = new_VideoInfo video_path nbytes
           in if has_ffprobe d then
                (case get_video_info d run of
                   Inl e \<Rightarrow>
                     Some (info \<lparr> status := STATUS_ERROR,
                                  error_message := Some (DetectionFailed e) \<rparr>)
                 | Inr None \<Rightarrow>
                     Some (info \<lparr> status := STATUS_ERROR,
                                  error_message := Some CannotGetVideoInfo \<rparr>)
                 | Inr (Some video_info) \<Rightarrow>
                     if video_info = empty_info then
                       Some (info \<lparr> status := STATUS_ERROR,
                                    error_message := Some CannotGetVideoInfo \<rparr>)
                     else
                       (let info' = update_from video_info info;
                            found = identify_problematic_streams d info_run data_run;
                            info'' = info' \<lparr> issues := fst found @ snd found \<rparr>
                        in if fst found \<noteq> [] \<or> snd found \<noteq> []
                           then Some (info'' \<lparr> status := STATUS_ERROR,
                                              error_message := Some CompatibilityIssuesDetected \<rparr>)
                           else Some (info'' \<lparr> status := STATUS_OK \<rparr>)))
              else
                Some (info \<lparr> status := STATUS_ERROR,
                             error_message := Some FFprobeUnavailable \<rparr>)))"

subsection \<open>VideoConverter: the analyzer\<close>

record converter =
  c_ffprobe_path :: "path option"

text \<open>
  \<^verbatim>\<open>VideoConverter.get_video_info\<close> returns the parsed output itself, or \<^verbatim>\<open>None\<close> after
  any failure. \<open>exists\<close> is \<^verbatim>\<open>os.path.exists(input_path)\<close>.
\<close>

definition converter_has_ffprobe :: "converter \<Rightarrow> bool" where
  "converter_has_ffprobe c \<longleftrightarrow> (case c_ffprobe_path c of None \<Rightarrow> False | Some p \<Rightarrow> p \<noteq> [])"

definition converter_get_video_info :: "converter \<Rightarrow> bool \<Rightarrow> ffprobe_run \<Rightarrow> probe_data option" where
  "converter_get_video_info c exists run =
     (if \<not> converter_has_ffprobe c then None
      else if \<not> exists then None
      else case run of
             SpawnError \<Rightarrow> None
           | Exited returncode stderr out \<Rightarrow> if returncode \<noteq> 0 then None else out)"

text \<open>A dictionary is false when it has no key.\<close>

definition data_is_empty :: "probe_data \<Rightarrow> bool" where
  "data_is_empty data \<longleftrightarrow> p_streams data = None \<and> p_format data = None"

text \<open>\<^verbatim>\<open>VideoConverter.identify_problematic_streams\<close>: the same loop, without side data.\<close>

definition converter_identify_problematic_streams ::
  "converter \<Rightarrow> bool \<Rightarrow> ffprobe_run \<Rightarrow> issue list \<times> issue list"
where
  "converter_identify_problematic_streams c exists run =
     (let result = ([], [])
      in if \<not> converter_has_ffprobe c then result
         else case converter_get_video_info c exists run of
                None \<Rightarrow> result
              | Some info \<Rightarrow>
                  if data_is_empty info then result
                  else scan_streams field_issues (streams_of info) result)"

subsection \<open>VideoConverter: the duration used by the preview\<close>

text \<open>
  Lines 446-453 of \<^verbatim>\<open>create_preview\<close>: the loop runs over every stream and keeps the
  duration of each video stream whose \<^verbatim>\<open>duration\<close> entry \<^verbatim>\<open>float\<close> accepts.
\<close>

fun scan_duration :: "stream list \<Rightarrow> rat \<Rightarrow> rat" where
  "scan_duration [] video_duration = video_duration"
| "scan_duration (s # ss) video_duration =
     scan_duration ss
       (if s_codec_type s = Some ''video'' then
          (case s_duration s of
             Some (Numeric x) \<Rightarrow> x
           | Some NonNumeric \<Rightarrow> video_duration
           | None \<Rightarrow> video_duration)
        else video_duration)"

text \<open>
  Lines 455-460: the value is replaced when it is false, that is zero. An absent container
  entry gives \<^verbatim>\<open>float(0)\<close>.
\<close>

definition container_duration :: "probe_data \<Rightarrow> rat \<Rightarrow> rat" where
  "container_duration data video_duration =
     (case p_format data of
        None \<Rightarrow> 0
      | Some format_info \<Rightarrow>
          (case f_duration format_info of
             None \<Rightarrow> 0
           | Some (Numeric x) \<Rightarrow> x
           | Some NonNumeric \<Rightarrow> video_duration))"

definition preview_duration :: "probe_data \<Rightarrow> rat" where
  "preview_duration data =
     (let video_duration = scan_duration (streams_of data) 0
      in if video_duration = 0 then container_duration data video_duration
         else video_duration)"

datatype preview_failure = NoFFmpegForPreview | InputMissing | NoVideoInfo | DurationUnknown

text \<open>
  Lines 434-463 of \<^verbatim>\<open>create_preview\<close>: the checks before the preview command is built.
  \<open>Inr\<close> holds the duration the rest of the function works with.
\<close>

definition create_preview_duration ::
  "converter \<Rightarrow> bool \<Rightarrow> bool \<Rightarrow> ffprobe_run \<Rightarrow> preview_failure + rat"
where
  "create_preview_duration c ffmpeg_found exists run =
     (if \<not> ffmpeg_found then Inl NoFFmpegForPreview
      else if \<not> exists then Inl InputMissing
      else case converter_get_video_info c exists run of
             None \<Rightarrow> Inl NoVideoInfo
           | Some data \<Rightarrow>
               if data_is_empty data then Inl NoVideoInfo
               else if preview_duration data \<le> 0 then Inl DurationUnknown
               else Inr (preview_duration data))"

text \<open>
  Two notions for stating what the loop of \<open>scan_duration\<close> computes: a video stream whose
  duration entry is numeric, and that number.
\<close>

definition has_numeric_duration :: "stream \<Rightarrow> bool" where
  "has_numeric_duration s \<longleftrightarrow>
     s_codec_type s = Some ''video''
     \<and> (case s_duration s of Some (Numeric x) \<Rightarrow> True | Some NonNumeric \<Rightarrow> False | None \<Rightarrow> False)"

definition numeric_duration :: "stream \<Rightarrow> rat" where
  "numeric_duration s = (case s_duration s of Some (Numeric x) \<Rightarrow> x | Some NonNumeric \<Rightarrow> 0 | None \<Rightarrow> 0)"

subsection \<open>VideoDetector: repair\<close>

text \<open>
  The state that \<^verbatim>\<open>fix_video\<close> and \<^verbatim>\<open>cleanup\<close> change: the detector's list
  \<^verbatim>\<open>_temp_files\<close>, the regular files on disk (each with its size), and the commands
  handed to \<^verbatim>\<open>subprocess.run\<close> and \<^verbatim>\<open>subprocess.Popen\<close>, oldest first.
\<close>

datatype command =
    Ffprobe path bool
  | Stage1 path path
  | Stage2 int int rat path path string string path

record state =
  temp_files :: "path list"
  files :: "path \<rightharpoonup> nat"
  invoked :: "command list"

text \<open>
  A run of the transcoder, read line by line until it ends: either an exception comes up
  (from \<^verbatim>\<open>Popen\<close> or from reading the output), or the process exits with a return code.
  Both carry what is at the command's output path afterwards (\<open>None\<close>: no file).
\<close>

datatype ffmpeg_run = Failed string "nat option" | Completed int "nat option"

text \<open>
  The outcomes \<^verbatim>\<open>fix_video\<close> reads, in the order of the source: the names
  \<^verbatim>\<open>tempfile.mkstemp\<close> returns (\<open>None\<close>: it raises), whether the output directory is
  missing and whether \<^verbatim>\<open>os.makedirs\<close> succeeds, the inspector runs, the two transcoder
  runs, whether \<^verbatim>\<open>os.remove\<close>, \<^verbatim>\<open>os.rename\<close> and \<^verbatim>\<open>shutil.move\<close> succeed, and the
  clock. What the inspector runs of lines 677 and 719 report is only logged; of the first
  of them the function below needs to know whether it leads to the run with
  \<^verbatim>\<open>-show_data\<close>.
\<close>

record fix_env =
  e_mkstemp_output :: "path option"
  e_output_dir_missing :: bool
  e_makedirs_ok :: bool
  e_orig_run :: ffprobe_run
  e_mkstemp_raw :: "path option"
  e_stage1 :: ffmpeg_run
  e_stage2 :: ffmpeg_run
  e_remove_raw_ok :: bool
  e_verify_info_run :: ffprobe_run
  e_verify_data_run :: ffprobe_run
  e_remove_original_ok :: bool
  e_rename_ok :: bool
  e_move_ok :: bool
  e_now :: string
  e_fixed_run :: ffprobe_run
  e_final_remove_raw_ok :: bool

datatype fix_message =
    NoFFmpeg
  | AlreadyCompatible
  | CannotCreateOutputDir
  | Stage1Failed int
  | Stage2Failed int
  | OutputMissingOrEmpty
  | ReplaceFailed
  | ConversionError string
  | Repaired string

datatype fix_result = Returned bool fix_message | Raised exn

record settings =
  preset :: string
  crf :: string
  st_video_bitrate :: string

definition quality_settings :: "string \<rightharpoonup> settings" where
  "quality_settings =
     map_of
       [(''high'', \<lparr> preset = ''slow'', crf = ''18'', st_video_bitrate = ''0'' \<rparr>),
        (''medium'', \<lparr> preset = ''medium'', crf = ''23'', st_video_bitrate = ''0'' \<rparr>),
        (''low'', \<lparr> preset = ''ultrafast'', crf = ''28'', st_video_bitrate = ''0'' \<rparr>)]"

definition settings_for :: "string \<Rightarrow> settings" where
  "settings_for quality =
     (case quality_settings quality of
        None \<Rightarrow> \<lparr> preset = ''medium'', crf = ''23'', st_video_bitrate = ''0'' \<rparr>
      | Some st \<Rightarrow> st)"

text \<open>The inspector commands a call of \<^verbatim>\<open>_get_video_info\<close> issues.\<close>

definition probe_invocations :: "detector \<Rightarrow> path \<Rightarrow> command list" where
  "probe_invocations d file = (if has_ffprobe d then [Ffprobe file False] else [])"

text \<open>The inspector commands a call of \<^verbatim>\<open>_identify_problematic_streams\<close> issues.\<close>

definition identify_invocations :: "detector \<Rightarrow> path \<Rightarrow> ffprobe_run \<Rightarrow> command list" where
  "identify_invocations d file info_run =
     probe_invocations d file
     @ (case get_video_info d info_run of
          Inl e \<Rightarrow> []
        | Inr None \<Rightarrow> []
        | Inr (Some video_info) \<Rightarrow>
            (if video_info = empty_info then [] else [Ffprobe file True]))"

text \<open>Lines 556-558: the encode parameters, with their fallbacks.\<close>

definition encode_width :: "info option \<Rightarrow> int" where
  "encode_width orig_info =
     (case orig_info of
        None \<Rightarrow> 1920
      | Some i \<Rightarrow> if i = empty_info then 1920 else (case i_width i of None \<Rightarrow> 1920 | Some w \<Rightarrow> w))"

definition encode_height :: "info option \<Rightarrow> int" where
  "encode_height orig_info =
     (case orig_info of
        None \<Rightarrow> 1080
      | Some i \<Rightarrow> if i = empty_info then 1080 else (case i_height i of None \<Rightarrow> 1080 | Some h \<Rightarrow> h))"

definition encode_fps :: "info option \<Rightarrow> rat" where
  "encode_fps orig_info =
     (case orig_info of
        None \<Rightarrow> 30
      | Some i \<Rightarrow> if i = empty_info then 30 else (case i_fps i of None \<Rightarrow> 30 | Some r \<Rightarrow> r))"

text \<open>
  Lines 666-673 and, again, the \<^verbatim>\<open>finally\<close> block of lines 731-739: the raw file is
  removed when it exists, and then leaves the list; a failing removal is passed over.
  \<open>remove_ok\<close> tells whether \<^verbatim>\<open>os.remove\<close> succeeds.
\<close>

definition remove_raw_file :: "bool \<Rightarrow> path \<Rightarrow> state \<Rightarrow> state" where
  "remove_raw_file remove_ok raw_temp_path s =
     (if files s raw_temp_path \<noteq> None \<and> remove_ok
      then s \<lparr> files := (files s)(raw_temp_path := None),
               temp_files := remove1 raw_temp_path (temp_files s) \<rparr>
      else s)"

text \<open>
  A transcoder command is handed to \<^verbatim>\<open>Popen\<close> and the run leaves \<open>out\<close> at the command's
  output path; no other file changes.
\<close>

definition run_transcoder :: "command \<Rightarrow> path \<Rightarrow> nat option \<Rightarrow> state \<Rightarrow> state" where
  "run_transcoder cmd out_path out s =
     s \<lparr> invoked := invoked s @ [cmd], files := (files s)(out_path := out) \<rparr>"

text \<open>Lines 675-684: the repaired file is analysed again; the result is only logged.\<close>

definition verify_output :: "detector \<Rightarrow> fix_env \<Rightarrow> path \<Rightarrow> state \<Rightarrow> state" where
  "verify_output d e temp_output_path s =
     s \<lparr> invoked := invoked s @ identify_invocations d temp_output_path (e_verify_info_run e) \<rparr>"

text \<open>
  Lines 688-708: the original is removed, or renamed to a backup when the removal fails;
  then the temporary output is moved to the output path and leaves the list. \<open>False\<close> is
  the exception that ends in the handler of line 707.
\<close>

definition replace_original :: "fix_env \<Rightarrow> path \<Rightarrow> path \<Rightarrow> path \<Rightarrow> state \<Rightarrow> bool \<times> state" where
  "replace_original e original_path temp_output_path output_path s =
     (let removed =
            (case files s original_path of
               None \<Rightarrow> Some s
             | Some content \<Rightarrow>
                 if e_remove_original_ok e
                 then Some (s \<lparr> files := (files s)(original_path := None) \<rparr>)
                 else if e_rename_ok e
                 then Some (s \<lparr> files := (files s)(original_path := None,
                                                    original_path @ ''.bak'' \<mapsto> content) \<rparr>)
                 else None)
      in case removed of
           None \<Rightarrow> (False, s)
         | Some s1 \<Rightarrow>
             if e_move_ok e
             then (True, s1 \<lparr> files := (files s1)(output_path := files s1 temp_output_path,
                                                 temp_output_path := None),
                              temp_files := remove1 temp_output_path (temp_files s1) \<rparr>)
             else (False, s1))"

text \<open>Lines 686-725: the replacement, the update of the record and the last probe.\<close>

definition finish ::
  "detector \<Rightarrow> fix_env \<Rightarrow> VideoInfo \<Rightarrow> string \<Rightarrow> path \<Rightarrow> path \<Rightarrow> path \<Rightarrow> state
     \<Rightarrow> fix_result \<times> VideoInfo \<times> state"
where
  "finish d e video_info quality original_path temp_output_path output_path s =
     (let replaced =
            (if temp_output_path \<noteq> output_path
             then replace_original e original_path temp_output_path output_path s
             else (True, s))
      in if fst replaced then
           (Returned True (Repaired (basename output_path)),
            video_info \<lparr> status := STATUS_FIXED,
                         fixed_path := Some output_path,
                         fixed_time := Some (e_now e),
                         conversion_params :=
                           Some \<lparr> cp_quality = quality,
                                  cp_preset = preset (settings_for quality),
                                  cp_crf = crf (settings_for quality) \<rparr> \<rparr>,
            (snd replaced) \<lparr> invoked := invoked (snd replaced) @ probe_invocations d output_path \<rparr>)
         else (Returned False ReplaceFailed, video_info, snd replaced))"

text \<open>
  Lines 606-730: the body of the \<^verbatim>\<open>try\<close> with its \<^verbatim>\<open>except\<close> handler. Each transcoder
  run writes its output path only.
\<close>

definition stages ::
  "detector \<Rightarrow> fix_env \<Rightarrow> VideoInfo \<Rightarrow> string \<Rightarrow> command \<Rightarrow> path \<Rightarrow> path \<Rightarrow> path \<Rightarrow> path \<Rightarrow> state
     \<Rightarrow> fix_result \<times> VideoInfo \<times> state"
where
  "stages d e video_info quality stage2_cmd original_path temp_output_path output_path
          raw_temp_path s =
     (let stage1_cmd = Stage1 original_path raw_temp_path
      in case e_stage1 e of
           Failed msg out1 \<Rightarrow>
             (Returned False (ConversionError msg), video_info,
              run_transcoder stage1_cmd raw_temp_path out1 s)
         | Completed return_code1 out1 \<Rightarrow>
             (let s1 = run_transcoder stage1_cmd raw_temp_path out1 s
              in if return_code1 \<noteq> 0
                 then (Returned False (Stage1Failed return_code1), video_info, s1)
                 else
                   (case e_stage2 e of
                      Failed msg out2 \<Rightarrow>
                        (Returned False (ConversionError msg), video_info,
                         run_transcoder stage2_cmd temp_output_path out2 s1)
                    | Completed return_code2 out2 \<Rightarrow>
                        (let s2 = run_transcoder stage2_cmd temp_output_path out2 s1
                         in if return_code2 \<noteq> 0
                            then (Returned False (Stage2Failed return_code2), video_info, s2)
                            else if files s2 temp_output_path = None
                                    \<or> files s2 temp_output_path = Some 0
                            then (Returned False OutputMissingOrEmpty, video_info, s2)
                            else
                              finish d e video_info quality original_path temp_output_path
                                output_path
                                (verify_output d e temp_output_path
                                   (remove_raw_file (e_remove_raw_ok e) raw_temp_path s2))))))"

text \<open>
  Lines 516-518 and 562-564: \<^verbatim>\<open>mkstemp\<close> has created an empty file of the given name,
  and the name joins the list.
\<close>

definition create_temp :: "path \<Rightarrow> state \<Rightarrow> state" where
  "create_temp p s = s \<lparr> files := (files s)(p \<mapsto> 0), temp_files := temp_files s @ [p] \<rparr>"

text \<open>
  Lines 523-739 of \<^verbatim>\<open>fix_video\<close>, from the check of the output directory to the
  \<^verbatim>\<open>finally\<close> block. The result holds the returned pair or the exception that leaves
  the function, the record, and the state. The inspector run of line 555 is outside the
  \<^verbatim>\<open>try\<close>: its exception leaves the function.
\<close>

definition transcode ::
  "detector \<Rightarrow> fix_env \<Rightarrow> VideoInfo \<Rightarrow> string \<Rightarrow> path \<Rightarrow> path \<Rightarrow> state
     \<Rightarrow> fix_result \<times> VideoInfo \<times> state"
where
  "transcode d e video_info quality temp_output_path output_path s =
     (let original_path = filepath video_info
      in if e_output_dir_missing e \<and> \<not> e_makedirs_ok e
         then (Returned False CannotCreateOutputDir, video_info, s)
         else
           (let s1 = s \<lparr> invoked := invoked s @ probe_invocations d original_path \<rparr>
            in case get_video_info d (e_orig_run e) of
                 Inl ex \<Rightarrow> (Raised ex, video_info, s1)
               | Inr orig_info \<Rightarrow>
                   (case e_mkstemp_raw e of
                      None \<Rightarrow> (Raised OSError, video_info, s1)
                    | Some raw_temp_path \<Rightarrow>
                        (let stage2_cmd =
                               Stage2 (encode_width orig_info) (encode_height orig_info)
                                 (encode_fps orig_info) raw_temp_path original_path
                                 (preset (settings_for quality)) (crf (settings_for quality))
                                 temp_output_path;
                             done = stages d e video_info quality stage2_cmd original_path
                                      temp_output_path output_path raw_temp_path
                                      (create_temp raw_temp_path s1)
                         in (fst done, fst (snd done),
                             remove_raw_file (e_final_remove_raw_ok e) raw_temp_path
                               (snd (snd done)))))))"

text \<open>
  \<^verbatim>\<open>fix_video\<close>: the two guards and the choice of the output (lines 501-521).
  \<open>output_path = None\<close> asks for the original to be replaced: the transcoder then writes a
  temporary file, which is moved over the original at the end.
\<close>

definition fix_video ::
  "detector \<Rightarrow> fix_env \<Rightarrow> VideoInfo \<Rightarrow> path option \<Rightarrow> string \<Rightarrow> state
     \<Rightarrow> fix_result \<times> VideoInfo \<times> state"
where
  "fix_video d e video_info output_path quality s =
     (if \<not> has_ffmpeg d then (Returned False NoFFmpeg, video_info, s)
      else if status video_info = STATUS_OK then (Returned True AlreadyCompatible, video_info, s)
      else case output_path of
             None \<Rightarrow>
               (case e_mkstemp_output e of
                  None \<Rightarrow> (Raised OSError, video_info, s)
                | Some temp_output_path \<Rightarrow>
                    transcode d e video_info quality temp_output_path (filepath video_info)
                      (create_temp temp_output_path s))
           | Some given \<Rightarrow> transcode d e video_info quality given given s)"



subsection \<open>Sample inputs\<close>

text \<open>Concrete inputs on which the properties below are evaluated.\<close>

definition sample_detector :: detector where
  "sample_detector =
     \<lparr> ffmpeg_path = Some ''/usr/bin/ffmpeg'', ffprobe_path = Some ''/usr/bin/ffprobe'' \<rparr>"

text \<open>A stream that carries its type and nothing else.\<close>

definition bare_stream :: "string \<Rightarrow> stream" where
  "bare_stream t =
     \<lparr> s_codec_type = Some t, s_codec_name = None, s_pix_fmt = None, s_color_space = None,
       s_side_data_list = None, s_width = None, s_height = None, s_r_frame_rate = None,
       s_bit_rate = None, s_duration = None \<rparr>"

definition h264_stream :: stream where
  "h264_stream =
     (bare_stream ''video'')
       \<lparr> s_codec_name := Some ''h264'', s_pix_fmt := Some ''yuv420p'',
         s_color_space := Some ''bt709'', s_width := Some 1920, s_height := Some 1080,
         s_r_frame_rate := Some ''30000/1001'' \<rparr>"

definition hevc_stream :: stream where
  "hevc_stream = h264_stream \<lparr> s_codec_name := Some ''hevc'' \<rparr>"

definition aac_stream :: stream where
  "aac_stream = (bare_stream ''audio'') \<lparr> s_codec_name := Some ''aac'' \<rparr>"

text \<open>A successful inspector run that reports the given streams and a duration of 10 s.\<close>

definition probe_ok :: "stream list \<Rightarrow> ffprobe_run" where
  "probe_ok ss =
     Exited 0 []
       (Some \<lparr> p_streams = Some ss, p_format = Some \<lparr> f_duration = Some (Numeric 10) \<rparr> \<rparr>)"

text \<open>
  A record flagged by detection, a disk that holds the file, and outcomes under which a
  repair succeeds; the properties change single outcomes of it.
\<close>

definition sample_record :: VideoInfo where
  "sample_record =
     (new_VideoInfo ''/v/a.mp4'' 1000)
       \<lparr> status := STATUS_ERROR, error_message := Some CompatibilityIssuesDetected,
         issues := [VideoCodecIssue ''HEVC''] \<rparr>"

definition sample_state :: state where
  "sample_state = \<lparr> temp_files = [], files = [''/v/a.mp4'' \<mapsto> 1000], invoked = [] \<rparr>"

definition sample_env :: fix_env where
  "sample_env =
     \<lparr> e_mkstemp_output = Some ''/v/temp_fix_1.mp4'',
       e_output_dir_missing = False,
       e_makedirs_ok = True,
       e_orig_run = probe_ok [hevc_stream],
       e_mkstemp_raw = Some ''/v/raw_temp_2.yuv'',
       e_stage1 = Completed 0 (Some 5000),
       e_stage2 = Completed 0 (Some 900),
       e_remove_raw_ok = True,
       e_verify_info_run = probe_ok [h264_stream],
       e_verify_data_run = probe_ok [h264_stream],
       e_remove_original_ok = True,
       e_rename_ok = True,
       e_move_ok = True,
       e_now = ''2024-01-01 00:00:00'',
       e_fixed_run = probe_ok [h264_stream],
       e_final_remove_raw_ok = True \<rparr>"

section \<open>Properties\<close>

lemmas sample_defs =
  sample_detector_def bare_stream_def h264_stream_def hevc_stream_def aac_stream_def
  probe_ok_def

lemmas str_defs =
  lower_def lower_char_def upper_def upper_char_def str_or_empty_def py_int_def strip_def
  is_space_def digit_val_def

lemmas probe_defs =
  get_video_info_def extract_info_def frame_rate_def bitrate_text_def format_duration_of_def
  int_or_zero_def streams_of_def empty_info_def has_ffprobe_def py_round2_def
  round_half_even_def

lemmas analyzer_defs =
  identify_problematic_streams_def video_stream_issues_def field_issues_def
  side_data_issues_def audio_stream_issues_def problem_video_codecs_def
  accepted_pixel_formats_def accepted_color_spaces_def accepted_audio_codecs_def

subsection \<open>Evaluation of the sample inputs\<close>



lemma sample_has_ffprobe: "has_ffprobe sample_detector"
  by (simp add: has_ffprobe_def sample_detector_def)



subsection \<open>Facts about the prober and the analyzer\<close>







lemma extract_info_duration:
  assumes "extract_info data = Inr i"
  shows "i_duration i = format_duration_of data"
  using assms
  by (auto simp: extract_info_def Let_def empty_info_def split: sum.splits option.splits)











subsection \<open>The verdict of detection\<close>



subsection \<open>Every stream is scanned\<close>







subsection \<open>Absent fields\<close>

text \<open>
  C2. On a file whose only stream is an audio stream without a codec name, both analyzers
  return an audio issue (with an empty codec name), where the property asks for two empty
  lists; a video stream with every optional field absent yields no issue.
\<close>

theorem absent_audio_codec_flagged:
  "identify_problematic_streams sample_detector (probe_ok [bare_stream ''audio''])
     (probe_ok [bare_stream ''audio'']) = ([], [AudioCodecIssue []])
   \<and> converter_identify_problematic_streams \<lparr> c_ffprobe_path = Some ''/usr/bin/ffprobe'' \<rparr> True
       (probe_ok [bare_stream ''audio'']) = ([], [AudioCodecIssue []])
   \<and> identify_problematic_streams sample_detector (probe_ok [bare_stream ''video''])
     (probe_ok [bare_stream ''video'']) = ([], [])"
  by (simp add: sample_defs probe_defs analyzer_defs str_defs Let_def
        converter_identify_problematic_streams_def converter_get_video_info_def
        converter_has_ffprobe_def data_is_empty_def)







subsection \<open>Probe failures\<close>

text \<open>
  C3, as stated, fails: when detection's own inspector run succeeds and a run of the
  analyzer fails (here on a file with an HEVC stream), the record is reported
  \<open>STATUS_OK\<close>; and what the analyzer returns after a failed run is what it returns
  for a compliant file, so its result carries no failure signal.
\<close>

theorem probe_failure_reported_ok:
  "map_option status
     (detect_video sample_detector ''a.mp4'' (Some 5) (probe_ok [hevc_stream])
        (Exited 1 ''error'' None) (probe_ok [hevc_stream])) = Some STATUS_OK
   \<and> map_option status
     (detect_video sample_detector ''a.mp4'' (Some 5) (probe_ok [hevc_stream])
        (probe_ok [hevc_stream]) (Exited 0 [] None)) = Some STATUS_OK
   \<and> identify_problematic_streams sample_detector (Exited 1 ''error'' None)
        (Exited 1 ''error'' None)
      = identify_problematic_streams sample_detector (probe_ok [h264_stream])
          (probe_ok [h264_stream])"
  by (simp add: detect_video_def sample_defs probe_defs analyzer_defs str_defs Let_def
        new_VideoInfo_def update_from_def)

text \<open>
  C3, amended. When the inspector run of \<^verbatim>\<open>detect_video\<close> itself fails (the call raises,
  the exit code is not zero, or the output does not parse), the record gets
  \<open>STATUS_ERROR\<close>, never \<open>STATUS_OK\<close>, with the detection-failed message, which is not
  the message of a flagged file, and with no issue. The analyzer returns two empty lists
  whenever one of its own runs fails.
\<close>

theorem probe_failure_handling:
  assumes "has_ffprobe d"
    and "failed = SpawnError \<or> (\<exists>rc err out. failed = Exited rc err out \<and> (rc \<noteq> 0 \<or> out = None))"
  shows "(\<exists>r e. detect_video d p (Some n) failed info_run data_run = Some r
            \<and> status r = STATUS_ERROR \<and> status r \<noteq> STATUS_OK
            \<and> error_message r = Some (DetectionFailed e)
            \<and> error_message r \<noteq> Some CompatibilityIssuesDetected
            \<and> issues r = [])
         \<and> identify_problematic_streams d failed data_run = ([], [])
         \<and> identify_problematic_streams d info_run failed = ([], [])"
proof -
  have g: "\<exists>e. get_video_info d failed = Inl e"
    using assms by (auto simp: get_video_info_def)
  then obtain e where e: "get_video_info d failed = Inl e" ..
  have a: "\<exists>r e. detect_video d p (Some n) failed info_run data_run = Some r
            \<and> status r = STATUS_ERROR \<and> status r \<noteq> STATUS_OK
            \<and> error_message r = Some (DetectionFailed e)
            \<and> error_message r \<noteq> Some CompatibilityIssuesDetected
            \<and> issues r = []"
    using assms(1) e by (simp add: detect_video_def Let_def new_VideoInfo_def)
  have b: "identify_problematic_streams d failed data_run = ([], [])"
    using e by (simp add: identify_problematic_streams_def Let_def)
  have c: "identify_problematic_streams d info_run failed = ([], [])"
    using assms(2)
    by (auto simp: identify_problematic_streams_def Let_def split: sum.splits option.splits)
  from a b c show ?thesis by blast
qed

theorem probe_failure_handling_witness:
  "(\<exists>r e. detect_video sample_detector ''a.mp4'' (Some 5) (Exited 1 ''error'' None)
            (probe_ok [hevc_stream]) (probe_ok [hevc_stream]) = Some r
        \<and> status r = STATUS_ERROR \<and> error_message r = Some (DetectionFailed e)
        \<and> issues r = [])
   \<and> identify_problematic_streams sample_detector (probe_ok [hevc_stream])
        (Exited 1 ''error'' None) = ([], [])"
proof -
  have h: "Exited 1 ''error'' None = SpawnError
      \<or> (\<exists>rc err out. Exited 1 ''error'' None = Exited rc err out \<and> (rc \<noteq> 0 \<or> out = None))"
    by simp
  show ?thesis
    using probe_failure_handling [OF sample_has_ffprobe h, of "''a.mp4''" 5
            "probe_ok [hevc_stream]" "probe_ok [hevc_stream]"]
    by blast
qed

subsection \<open>Frame rate\<close>










subsection \<open>Repair\<close>



subsection \<open>Repair of a record that is already compatible\<close>

text \<open>
  C10, amended. On a record whose status is \<open>STATUS_OK\<close>, \<^verbatim>\<open>fix_video\<close> returns at
  once: success with the already-compatible message when FFmpeg was found, failure with the
  FFmpeg-not-found message otherwise. In both cases the record and the state are the ones
  passed in: no command is issued, no temporary file is created or listed, no file changes.
\<close>

theorem fix_video_on_ok_record:
  assumes "status video_info = STATUS_OK"
  shows "fix_video d e video_info output_path quality s =
           (if has_ffmpeg d then Returned True AlreadyCompatible else Returned False NoFFmpeg,
            video_info, s)"
  using assms by (simp add: fix_video_def)

theorem fix_video_on_ok_record_witness:
  "fix_video sample_detector sample_env (sample_record \<lparr> status := STATUS_OK \<rparr>) None
     ''medium'' sample_state
   = (Returned True AlreadyCompatible, sample_record \<lparr> status := STATUS_OK \<rparr>, sample_state)"
proof -
  have "status (sample_record \<lparr> status := STATUS_OK \<rparr>) = STATUS_OK" by simp
  from fix_video_on_ok_record [OF this, where d = sample_detector and e = sample_env
         and output_path = None and quality = "''medium''" and s = sample_state]
  show ?thesis by (simp add: has_ffmpeg_def sample_detector_def)
qed

text \<open>
  C10, as stated, fails when the detector has not found FFmpeg: the first guard of
  \<^verbatim>\<open>fix_video\<close> answers before the status is looked at, and the call returns failure.
\<close>

theorem fix_video_without_ffmpeg:
  "fst (fix_video \<lparr> ffmpeg_path = None, ffprobe_path = Some ''/usr/bin/ffprobe'' \<rparr> sample_env
          (sample_record \<lparr> status := STATUS_OK \<rparr>) None ''medium'' sample_state)
     = Returned False NoFFmpeg"
  by (simp add: fix_video_def has_ffmpeg_def)

subsection \<open>Failure of the first stage\<close>

text \<open>
  C4. When \<^verbatim>\<open>fix_video\<close> gets as far as the first stage and the decode process exits
  with a non-zero code, it returns failure with the stage-1 message and that code; the
  record is returned as it was passed in (so it is not set to fixed, and
  \<^verbatim>\<open>fixed_path\<close>, \<^verbatim>\<open>fixed_time\<close> and \<^verbatim>\<open>conversion_params\<close> keep their values); the
  only commands issued are the probe of the original and the stage-1 command, so neither the
  second stage nor the replacement runs; and no file but the two temporary ones changes, in
  particular not the original.
\<close>

theorem fix_video_stage1_failure:
  assumes "has_ffmpeg d"
    and "status video_info \<noteq> STATUS_OK"
    and "output_path = None \<Longrightarrow> \<exists>t. e_mkstemp_output e = Some t \<and> t \<noteq> filepath video_info"
    and "\<not> (e_output_dir_missing e \<and> \<not> e_makedirs_ok e)"
    and "get_video_info d (e_orig_run e) = Inr orig_info"
    and "e_mkstemp_raw e = Some raw"
    and "raw \<noteq> filepath video_info"
    and "e_stage1 e = Completed return_code1 out1"
    and "return_code1 \<noteq> 0"
  shows "\<exists>s'. fix_video d e video_info output_path quality s
                = (Returned False (Stage1Failed return_code1), video_info, s')
            \<and> files s' (filepath video_info) = files s (filepath video_info)
            \<and> invoked s' = invoked s @ probe_invocations d (filepath video_info)
                              @ [Stage1 (filepath video_info) raw]
            \<and> (\<forall>p. p \<noteq> raw \<and> (output_path = None \<longrightarrow> e_mkstemp_output e \<noteq> Some p)
                   \<longrightarrow> files s' p = files s p)"
proof (cases output_path)
  case None
  with assms(3) obtain t where t: "e_mkstemp_output e = Some t" "t \<noteq> filepath video_info"
    by blast
  show ?thesis
    using assms(1,2,4-9) None t
    by (auto simp: fix_video_def transcode_def stages_def remove_raw_file_def
          run_transcoder_def create_temp_def Let_def)
next
  case (Some p)
  show ?thesis
    using assms(1,2,4-9) Some
    by (auto simp: fix_video_def transcode_def stages_def remove_raw_file_def
          run_transcoder_def create_temp_def Let_def)
qed

lemma sample_orig_info:
  "get_video_info sample_detector (probe_ok [hevc_stream]) =
     Inr (Some \<lparr> i_width = Some 1920, i_height = Some 1080, i_codec = Some (Some ''hevc''),
                  i_pixel_format = Some (Some ''yuv420p''),
                  i_color_space = Some (Some ''bt709''), i_fps = Some (2997 / 100),
                  i_video_bitrate = None, i_audio_codec = None,
                  i_audio_bitrate = None, i_duration = Some 10 \<rparr>)"
  by (simp add: sample_defs probe_defs str_defs)

theorem fix_video_stage1_failure_witness:
  "\<exists>s'. fix_video sample_detector (sample_env \<lparr> e_stage1 := Completed 1 (Some 0) \<rparr>)
           sample_record None ''medium'' sample_state
         = (Returned False (Stage1Failed 1), sample_record, s')
       \<and> files s' ''/v/a.mp4'' = Some 1000
       \<and> invoked s' = [Ffprobe ''/v/a.mp4'' False, Stage1 ''/v/a.mp4'' ''/v/raw_temp_2.yuv'']"
proof -
  let ?e = "sample_env \<lparr> e_stage1 := Completed 1 (Some 0) \<rparr>"
  have h1: "has_ffmpeg sample_detector"
    by (simp add: has_ffmpeg_def sample_detector_def)
  have h2: "status sample_record \<noteq> STATUS_OK"
    by (simp add: sample_record_def)
  have h3: "\<exists>t. e_mkstemp_output ?e = Some t \<and> t \<noteq> filepath sample_record"
    by (simp add: sample_env_def sample_record_def new_VideoInfo_def)
  have h4: "\<not> (e_output_dir_missing ?e \<and> \<not> e_makedirs_ok ?e)"
    by (simp add: sample_env_def)
  have h5: "get_video_info sample_detector (e_orig_run ?e) =
     Inr (Some \<lparr> i_width = Some 1920, i_height = Some 1080, i_codec = Some (Some ''hevc''),
                  i_pixel_format = Some (Some ''yuv420p''),
                  i_color_space = Some (Some ''bt709''), i_fps = Some (2997 / 100),
                  i_video_bitrate = None, i_audio_codec = None,
                  i_audio_bitrate = None, i_duration = Some 10 \<rparr>)"
    using sample_orig_info by (simp add: sample_env_def)
  have h6: "e_mkstemp_raw ?e = Some ''/v/raw_temp_2.yuv''"
    by (simp add: sample_env_def)
  have h7: "''/v/raw_temp_2.yuv'' \<noteq> filepath sample_record"
    by (simp add: sample_record_def new_VideoInfo_def)
  have h8: "e_stage1 ?e = Completed 1 (Some 0)" by simp
  have h9: "(1::int) \<noteq> 0" by simp
  have fp: "filepath sample_record = ''/v/a.mp4''"
    by (simp add: sample_record_def new_VideoInfo_def)
  show ?thesis
    using fix_video_stage1_failure [where output_path = None and quality = "''medium''"
            and s = sample_state, OF h1 h2 h3 h4 h5 h6 h7 h8 h9]
    by (auto simp: fp probe_invocations_def sample_has_ffprobe sample_state_def)
qed

subsection \<open>Temporary files\<close>









lemma create_temp_listed: "t \<in> set (temp_files (create_temp t s))"
  by (simp add: create_temp_def)

lemma create_temp_keeps_listed:
  "p \<in> set (temp_files s) \<Longrightarrow> p \<in> set (temp_files (create_temp t s))"
  by (simp add: create_temp_def)



lemma remove_raw_file_keeps_none:
  "files s p = None \<Longrightarrow> files (remove_raw_file ok raw s) p = None"
  by (simp add: remove_raw_file_def)


lemma run_transcoder_temp_files [simp]:
  "temp_files (run_transcoder cmd out_path out s) = temp_files s"
  by (simp add: run_transcoder_def)












subsection \<open>Duration\<close>

lemma sample_durations:
  "get_video_info sample_detector
     (Exited 0 []
        (Some \<lparr> p_streams = Some [h264_stream \<lparr> s_duration := Some (Numeric 12) \<rparr>],
                 p_format = Some \<lparr> f_duration = Some (Numeric 34) \<rparr> \<rparr>))
   = Inr (Some \<lparr> i_width = Some 1920, i_height = Some 1080, i_codec = Some (Some ''h264''),
                  i_pixel_format = Some (Some ''yuv420p''),
                  i_color_space = Some (Some ''bt709''), i_fps = Some (2997 / 100),
                  i_video_bitrate = None, i_audio_codec = None,
                  i_audio_bitrate = None, i_duration = Some 34 \<rparr>)
   \<and> get_video_info sample_detector
     (Exited 0 []
        (Some \<lparr> p_streams = Some [h264_stream \<lparr> s_duration := Some (Numeric 12) \<rparr>],
                 p_format = None \<rparr>))
   = Inr (Some \<lparr> i_width = Some 1920, i_height = Some 1080, i_codec = Some (Some ''h264''),
                  i_pixel_format = Some (Some ''yuv420p''),
                  i_color_space = Some (Some ''bt709''), i_fps = Some (2997 / 100),
                  i_video_bitrate = None, i_audio_codec = None,
                  i_audio_bitrate = None, i_duration = None \<rparr>)"
  by (simp add: sample_defs probe_defs str_defs)

lemma get_video_info_duration:
  assumes "get_video_info d (Exited rc err (Some data)) = Inr (Some i)"
  shows "i_duration i = format_duration_of data"
proof -
  from assms have "extract_info data = Inr i"
    by (auto simp: get_video_info_def split: if_splits sum.splits)
  then show ?thesis by (rule extract_info_duration)
qed

lemma find_snoc:
  "find P (xs @ [x]) = (case find P xs of None \<Rightarrow> (if P x then Some x else None) | Some y \<Rightarrow> Some y)"
  by (induction xs) auto

lemma scan_duration_last:
  "scan_duration ss acc =
     (case find has_numeric_duration (rev ss) of
        None \<Rightarrow> acc
      | Some v \<Rightarrow> numeric_duration v)"
proof (induction ss arbitrary: acc)
  case Nil
  then show ?case by simp
next
  case (Cons s ss)
  show ?case
    by (auto simp: Cons.IH find_snoc has_numeric_duration_def numeric_duration_def
          split: option.splits dur_text.splits)
qed

text \<open>
  C6, as stated, fails for the prober: with a stream duration of 12 s and a container
  duration of 34 s the dictionary holds 34, and with no container duration it holds none,
  although the video stream carries one.
\<close>

theorem prober_ignores_stream_duration:
  "get_video_info sample_detector
     (Exited 0 []
        (Some \<lparr> p_streams = Some [h264_stream \<lparr> s_duration := Some (Numeric 12) \<rparr>],
                 p_format = Some \<lparr> f_duration = Some (Numeric 34) \<rparr> \<rparr>))
   = Inr (Some \<lparr> i_width = Some 1920, i_height = Some 1080, i_codec = Some (Some ''h264''),
                  i_pixel_format = Some (Some ''yuv420p''),
                  i_color_space = Some (Some ''bt709''), i_fps = Some (2997 / 100),
                  i_video_bitrate = None, i_audio_codec = None,
                  i_audio_bitrate = None, i_duration = Some 34 \<rparr>)
   \<and> get_video_info sample_detector
     (Exited 0 []
        (Some \<lparr> p_streams = Some [h264_stream \<lparr> s_duration := Some (Numeric 12) \<rparr>],
                 p_format = None \<rparr>))
   = Inr (Some \<lparr> i_width = Some 1920, i_height = Some 1080, i_codec = Some (Some ''h264''),
                  i_pixel_format = Some (Some ''yuv420p''),
                  i_color_space = Some (Some ''bt709''), i_fps = Some (2997 / 100),
                  i_video_bitrate = None, i_audio_codec = None,
                  i_audio_bitrate = None, i_duration = None \<rparr>)"
  by (rule sample_durations)

text \<open>
  C6, amended. The prober \<^verbatim>\<open>_get_video_info\<close> takes the duration from the container-level
  entry alone, whatever the streams carry. The order named in the property is the one of
  \<^verbatim>\<open>create_preview\<close>: it takes the duration of the last video stream that has a numeric
  one and replaces it by the container-level duration when there is no such stream or when
  that number is zero.
\<close>

theorem duration_sources:
  "(\<forall>d rc err data i. get_video_info d (Exited rc err (Some data)) = Inr (Some i) \<longrightarrow>
       i_duration i = format_duration_of data)
   \<and> (\<forall>data. find has_numeric_duration (rev (streams_of data)) = None \<longrightarrow>
       preview_duration data = container_duration data 0)
   \<and> (\<forall>data v. find has_numeric_duration (rev (streams_of data)) = Some v \<longrightarrow>
       preview_duration data =
         (if numeric_duration v = 0 then container_duration data 0 else numeric_duration v))
   \<and> (\<forall>c err data. converter_has_ffprobe c \<and> \<not> data_is_empty data \<longrightarrow>
       create_preview_duration c True True (Exited 0 err (Some data)) =
         (if preview_duration data \<le> 0 then Inl DurationUnknown
          else Inr (preview_duration data)))"
  by (auto simp: get_video_info_duration preview_duration_def scan_duration_last Let_def
        create_preview_duration_def converter_get_video_info_def)

theorem duration_sources_witness:
  "format_duration_of
     \<lparr> p_streams = Some [h264_stream \<lparr> s_duration := Some (Numeric 12) \<rparr>],
       p_format = Some \<lparr> f_duration = Some (Numeric 34) \<rparr> \<rparr> = Some 34
   \<and> preview_duration
     \<lparr> p_streams = Some [h264_stream \<lparr> s_duration := Some (Numeric 12) \<rparr>],
       p_format = Some \<lparr> f_duration = Some (Numeric 34) \<rparr> \<rparr> = 12
   \<and> preview_duration
     \<lparr> p_streams = Some [h264_stream \<lparr> s_duration := Some (Numeric 0) \<rparr>],
       p_format = Some \<lparr> f_duration = Some (Numeric 34) \<rparr> \<rparr> = 34
   \<and> preview_duration
     \<lparr> p_streams = Some [h264_stream \<lparr> s_duration := Some NonNumeric \<rparr>],
       p_format = Some \<lparr> f_duration = Some (Numeric 34) \<rparr> \<rparr> = 34"
proof -
  note T = duration_sources
  from T have a: "\<forall>d rc err data i. get_video_info d (Exited rc err (Some data)) = Inr (Some i) \<longrightarrow>
       i_duration i = format_duration_of data" by blast
  from T have b: "\<forall>data. find has_numeric_duration (rev (streams_of data)) = None \<longrightarrow>
       preview_duration data = container_duration data 0" by blast
  from T have c: "\<forall>data v. find has_numeric_duration (rev (streams_of data)) = Some v \<longrightarrow>
       preview_duration data =
         (if numeric_duration v = 0 then container_duration data 0 else numeric_duration v)"
    by blast
  have w1: "format_duration_of
     \<lparr> p_streams = Some [h264_stream \<lparr> s_duration := Some (Numeric 12) \<rparr>],
       p_format = Some \<lparr> f_duration = Some (Numeric 34) \<rparr> \<rparr> = Some 34"
    using a [rule_format, OF sample_durations [THEN conjunct1]] by simp
  have f12: "find has_numeric_duration (rev (streams_of
     \<lparr> p_streams = Some [h264_stream \<lparr> s_duration := Some (Numeric 12) \<rparr>],
       p_format = Some \<lparr> f_duration = Some (Numeric 34) \<rparr> \<rparr>))
     = Some (h264_stream \<lparr> s_duration := Some (Numeric 12) \<rparr>)"
    by (simp add: streams_of_def has_numeric_duration_def sample_defs)
  have f0: "find has_numeric_duration (rev (streams_of
     \<lparr> p_streams = Some [h264_stream \<lparr> s_duration := Some (Numeric 0) \<rparr>],
       p_format = Some \<lparr> f_duration = Some (Numeric 34) \<rparr> \<rparr>))
     = Some (h264_stream \<lparr> s_duration := Some (Numeric 0) \<rparr>)"
    by (simp add: streams_of_def has_numeric_duration_def sample_defs)
  have fn: "find has_numeric_duration (rev (streams_of
     \<lparr> p_streams = Some [h264_stream \<lparr> s_duration := Some NonNumeric \<rparr>],
       p_format = Some \<lparr> f_duration = Some (Numeric 34) \<rparr> \<rparr>)) = None"
    by (simp add: streams_of_def has_numeric_duration_def sample_defs)
  have w2: "preview_duration
     \<lparr> p_streams = Some [h264_stream \<lparr> s_duration := Some (Numeric 12) \<rparr>],
       p_format = Some \<lparr> f_duration = Some (Numeric 34) \<rparr> \<rparr> = 12"
    using c [rule_format, OF f12] by (simp add: numeric_duration_def)
  have w3: "preview_duration
     \<lparr> p_streams = Some [h264_stream \<lparr> s_duration := Some (Numeric 0) \<rparr>],
       p_format = Some \<lparr> f_duration = Some (Numeric 34) \<rparr> \<rparr> = 34"
    using c [rule_format, OF f0] by (simp add: numeric_duration_def container_duration_def)
  have w4: "preview_duration
     \<lparr> p_streams = Some [h264_stream \<lparr> s_duration := Some NonNumeric \<rparr>],
       p_format = Some \<lparr> f_duration = Some (Numeric 34) \<rparr> \<rparr> = 34"
    using b [rule_format, OF fn] by (simp add: container_duration_def)
  from w1 w2 w3 w4 show ?thesis by blast
qed

end
